theory Spec2Isabelle
  imports Main
begin

section \<open>goignore: a shallow embedding of \<^verbatim>\<open>goignore.go\<close>\<close>

text \<open>
  Go strings are byte sequences and are modelled as \<^typ>\<open>string\<close> (lists of
  \<^typ>\<open>char\<close>, one per byte). Slices \<^verbatim>\<open>s[l:r]\<close> become \<open>take\<close>/\<open>drop\<close>.
  An index that Go checks at run time and that may be out of range is a branch of the
  model: the functions that can panic return \<open>error + 'a\<close>, with \<open>Inl\<close> for the panic.
  Loops are recursive functions on the loop variables.
\<close>

subsection \<open>Run-time panics\<close>

datatype error = IndexOutOfRange

subsection \<open>\<^verbatim>\<open>mySplit\<close> (goignore.go, lines 13 to 28)\<close>

text \<open>
  \<^verbatim>\<open>s[l:r]\<close> for \<open>l \<le> r \<le> len(s)\<close>.
\<close>

definition slice :: "'a list \<Rightarrow> nat \<Rightarrow> nat \<Rightarrow> 'a list" where
  "slice s l r = take (r - l) (drop l s)"

text \<open>
  The loop \<^verbatim>\<open>for l, r := 0, 0; r <= len(s); r++\<close>. The buffer \<open>pathComponents\<close>
  is passed along; the write \<^verbatim>\<open>pathComponents[idx] = s[l:r]\<close> panics when
  \<open>idx\<close> has reached the length of the buffer.
\<close>

function mySplit_loop ::
  "string \<Rightarrow> char \<Rightarrow> string list \<Rightarrow> nat \<Rightarrow> nat \<Rightarrow> nat \<Rightarrow> error + string list" where
  "mySplit_loop s sep pathComponents idx l r =
     (if r \<le> length s then
        (if r = length s \<or> s ! r = sep then
           (if r > l then
              (if idx < length pathComponents
               then mySplit_loop s sep (pathComponents[idx := slice s l r]) (idx + 1) (r + 1) (r + 1)
               else Inl IndexOutOfRange)
            else mySplit_loop s sep pathComponents idx (r + 1) (r + 1))
         else mySplit_loop s sep pathComponents idx l (r + 1))
      else Inr (take idx pathComponents))"
  by pat_completeness auto
termination
  by (relation "measure (\<lambda>(s, sep, pathComponents, idx, l, r). Suc (length s) - r)") auto

declare mySplit_loop.simps [simp del]

definition mySplit :: "string \<Rightarrow> char \<Rightarrow> error + string list" where
  "mySplit s sep = mySplit_loop s sep (replicate 1024 []) 0 0 0"

text \<open>
  A buffer-free description of the same computation, used to reason about \<open>mySplit\<close>:
  \<open>pieces sep acc rest\<close> are the non-empty maximal separator-free pieces of
  \<open>acc @ rest\<close>, where \<open>acc\<close> is the piece read so far.
\<close>

fun pieces :: "char \<Rightarrow> string \<Rightarrow> string \<Rightarrow> string list" where
  "pieces sep acc [] = (if acc = [] then [] else [acc])"
| "pieces sep acc (c # cs) =
     (if c = sep then (if acc = [] then pieces sep [] cs else acc # pieces sep [] cs)
      else pieces sep (acc @ [c]) cs)"

subsection \<open>\<^verbatim>\<open>stringMatch\<close> (goignore.go, lines 42 to 77)\<close>

text \<open>
  \<open>stringMatch_loop str pattern i j\<close> is the loop \<^verbatim>\<open>for ; i < len(str); i++\<close> at
  the indices \<open>i\<close> and \<open>j\<close>, followed by the test after the loop. The comparison
  \<^verbatim>\<open>j < len(pattern)-1\<close> is on Go's signed \<open>int\<close>, hence on \<^typ>\<open>int\<close> here.
  There is no case for \<^verbatim>\<open>'['\<close>: the source has only a comment
  (\<^verbatim>\<open>TODO: handle character classes\<close>) there, so it falls to \<^verbatim>\<open>default\<close>.

  \<open>stringMatch_star str rest i (Suc k)\<close> is the inner loop
  \<^verbatim>\<open>for k := len(str); k >= i; k--\<close> about to test \<open>k\<close>, where \<open>rest\<close> is
  \<^verbatim>\<open>pattern[j+1:]\<close>; the recursive call \<^verbatim>\<open>stringMatch(str[k:], pattern[j+1:])\<close>
  starts the outer loop again at \<open>0, 0\<close>.
\<close>

function stringMatch_loop :: "string \<Rightarrow> string \<Rightarrow> nat \<Rightarrow> nat \<Rightarrow> bool"
  and stringMatch_star :: "string \<Rightarrow> string \<Rightarrow> nat \<Rightarrow> nat \<Rightarrow> bool"
where
  "stringMatch_loop str pattern i j =
     (if i < length str then
        (if j \<ge> length pattern then False
         else if pattern ! j = CHR ''?'' then stringMatch_loop str pattern (i + 1) (j + 1)
         else if pattern ! j = CHR ''*'' then
           stringMatch_star str (drop (j + 1) pattern) i (Suc (length str))
         else if str ! i \<noteq> pattern ! j then False
         else stringMatch_loop str pattern (i + 1) (j + 1))
      else if int j < int (length pattern) - 1 then False
      else True)"
| "stringMatch_star str rest i 0 = False"
| "stringMatch_star str rest i (Suc k) =
     (if k \<ge> i then
        (if stringMatch_loop (drop k str) rest 0 0 then True
         else stringMatch_star str rest i k)
      else False)"
  by pat_completeness auto
termination
  by (relation "inv_image (less_than <*lex*> less_than)
        (\<lambda>x. case x of
            Inl (str, pattern, i, j) \<Rightarrow> (2 * length pattern, length str - i)
          | Inr (str, rest, i, k) \<Rightarrow> (2 * length rest + 1, k))")
     auto

declare stringMatch_loop.simps [simp del]

definition stringMatch :: "string \<Rightarrow> string \<Rightarrow> bool" where
  "stringMatch str pattern = stringMatch_loop str pattern 0 0"

subsection \<open>\<^verbatim>\<open>matchComponents\<close> (goignore.go, lines 82 to 106)\<close>

text \<open>
  The result is the pair \<open>(matches, final)\<close>. \<open>matchComponents_loop\<close> is the loop
  \<^verbatim>\<open>for ; i < len(components); i++\<close> at index \<open>i\<close> with the return after it;
  \<open>matchComponents_star path rest onlyDirectory i (Suc j)\<close> is the inner loop
  \<^verbatim>\<open>for j := len(path) - 1; j >= i; j--\<close> about to test \<open>j\<close>, where \<open>rest\<close> is
  \<^verbatim>\<open>components[i+1:]\<close>.
\<close>

function matchComponents_loop :: "string list \<Rightarrow> string list \<Rightarrow> bool \<Rightarrow> nat \<Rightarrow> bool \<times> bool"
  and matchComponents_star :: "string list \<Rightarrow> string list \<Rightarrow> bool \<Rightarrow> nat \<Rightarrow> nat \<Rightarrow> bool \<times> bool"
where
  "matchComponents_loop path components onlyDirectory i =
     (if i < length components then
        (if i \<ge> length path then (False, False)
         else if components ! i = ''**'' then
           matchComponents_star path (drop (i + 1) components) onlyDirectory i (length path)
         else if \<not> stringMatch (path ! i) (components ! i) then (False, False)
         else matchComponents_loop path components onlyDirectory (i + 1))
      else (True, i = length path))"
| "matchComponents_star path rest onlyDirectory i 0 = (False, False)"
| "matchComponents_star path rest onlyDirectory i (Suc j) =
     (if j \<ge> i then
        (case matchComponents_loop (drop j path) rest onlyDirectory 0 of
           (match, final) \<Rightarrow>
             if match then (True, final)
             else matchComponents_star path rest onlyDirectory i j)
      else (False, False))"
  by pat_completeness auto
termination
  by (relation "inv_image (less_than <*lex*> less_than)
        (\<lambda>x. case x of
            Inl (path, components, onlyDirectory, i) \<Rightarrow>
              (2 * length components, length components - i)
          | Inr (path, rest, onlyDirectory, i, j) \<Rightarrow> (2 * length rest + 1, j))")
     auto

declare matchComponents_loop.simps [simp del]

definition matchComponents :: "string list \<Rightarrow> string list \<Rightarrow> bool \<Rightarrow> bool \<times> bool" where
  "matchComponents path components onlyDirectory =
     matchComponents_loop path components onlyDirectory 0"

subsection \<open>\<^verbatim>\<open>Rule\<close> and \<^verbatim>\<open>Rule.Match\<close> (goignore.go, lines 35 to 40 and 109 to 128)\<close>

record Rule =
  Components :: "string list"
  Negate :: bool
  OnlyDirectory :: bool
  Relative :: bool

text \<open>\<^verbatim>\<open>strings.HasSuffix(path, "/")\<close> for the one-byte suffix.\<close>

definition HasSuffix :: "string \<Rightarrow> char \<Rightarrow> bool" where
  "HasSuffix s c = (s \<noteq> [] \<and> last s = c)"

text \<open>
  \<open>Rule_Match_loop r pathComponents hasSuffix (Suc j)\<close> is the loop
  \<^verbatim>\<open>for j := len(pathComponents) - 1; j >= 0; j--\<close> about to test \<open>j\<close>;
  at \<open>0\<close> the loop is over and the function returns \<open>false\<close>.
\<close>

fun Rule_Match_loop :: "Rule \<Rightarrow> string list \<Rightarrow> bool \<Rightarrow> nat \<Rightarrow> bool" where
  "Rule_Match_loop r pathComponents hasSuffix 0 = False"
| "Rule_Match_loop r pathComponents hasSuffix (Suc j) =
     (case matchComponents (drop j pathComponents) (Components r) (OnlyDirectory r) of
        (match, final) \<Rightarrow>
          if match
          then \<not> OnlyDirectory r \<or> OnlyDirectory r \<and> (\<not> final \<or> final \<and> hasSuffix)
          else Rule_Match_loop r pathComponents hasSuffix j)"

fun Rule_Match :: "Rule \<Rightarrow> string \<Rightarrow> error + bool" where
  "Rule_Match r path =
     (let hasSuffix = HasSuffix path (CHR ''/'') in
      case mySplit path (CHR ''/'') of
        Inl e \<Rightarrow> Inl e
      | Inr pathComponents \<Rightarrow>
          if \<not> Relative r
          then Inr (Rule_Match_loop r pathComponents hasSuffix (length pathComponents))
          else (case matchComponents pathComponents (Components r) (OnlyDirectory r) of
                  (match, final) \<Rightarrow>
                    Inr (match \<and> (\<not> OnlyDirectory r \<or>
                           OnlyDirectory r \<and> (\<not> final \<or> final \<and> hasSuffix)))))"

declare Rule_Match.simps [simp del]

subsection \<open>\<^verbatim>\<open>createRule\<close> (goignore.go, lines 164 to 196)\<close>

text \<open>
  Each read \<^verbatim>\<open>pattern[0]\<close> and the read \<^verbatim>\<open>pattern[len(pattern)-1]\<close> panics when
  the pattern is empty at that point; \<open>pattern1\<close>, \<open>pattern2\<close> and \<open>pattern3\<close> are the
  successive values of the variable \<open>pattern\<close>. \<open>CHR 0x5C\<close> is the backslash.
\<close>

definition createRule :: "string \<Rightarrow> error + Rule" where
  "createRule pattern =
     (if pattern = [] then Inl IndexOutOfRange else
      let negate = (pattern ! 0 = CHR ''!'');
          pattern1 = (if negate then drop 1 pattern else pattern) in
      if pattern1 = [] then Inl IndexOutOfRange else
      let relative = (pattern1 ! 0 = CHR ''/'');
          pattern2 = (if relative then drop 1 pattern1 else pattern1) in
      if pattern2 = [] then Inl IndexOutOfRange else
      let pattern3 = (if pattern2 ! 0 = CHR 0x5C then drop 1 pattern2 else pattern2) in
      if pattern3 = [] then Inl IndexOutOfRange else
      let onlyDirectory = (pattern3 ! (length pattern3 - 1) = CHR ''/'') in
      case mySplit pattern3 (CHR ''/'') of
        Inl e \<Rightarrow> Inl e
      | Inr components \<Rightarrow>
          Inr \<lparr>Components = components, Negate = negate, OnlyDirectory = onlyDirectory,
               Relative = (relative \<or> length components > 1)\<rparr>)"

subsection \<open>\<^verbatim>\<open>Gitignore\<close> and \<^verbatim>\<open>CompileIgnoreLines\<close> (goignore.go, lines 131 to 154)\<close>

record Gitignore =
  Rules :: "Rule list"

text \<open>
  \<^verbatim>\<open>strings.Trim(s, cutset)\<close> for a cutset of ASCII bytes: the bytes of the cutset
  are removed from both ends. The cutset of the source is space, tab, carriage return
  and newline.
\<close>

definition Trim :: "string \<Rightarrow> string \<Rightarrow> string" where
  "Trim s cutset =
     rev (dropWhile (\<lambda>c. c \<in> set cutset) (rev (dropWhile (\<lambda>c. c \<in> set cutset) s)))"

definition whitespace :: string where
  "whitespace = [CHR '' '', CHR 0x09, CHR 0x0D, CHR 0x0A]"

text \<open>
  The loop \<^verbatim>\<open>for _, pattern := range patterns\<close>, with the rules appended so far.
  A panic of \<open>createRule\<close> ends the whole compilation.
\<close>

fun CompileIgnoreLines_loop :: "Rule list \<Rightarrow> string list \<Rightarrow> error + Rule list" where
  "CompileIgnoreLines_loop rules [] = Inr rules"
| "CompileIgnoreLines_loop rules (pattern # patterns) =
     (let pattern' = Trim pattern whitespace in
      if pattern' = [] \<or> pattern' ! 0 = CHR ''#''
      then CompileIgnoreLines_loop rules patterns
      else (case createRule pattern' of
              Inl e \<Rightarrow> Inl e
            | Inr rule \<Rightarrow> CompileIgnoreLines_loop (rules @ [rule]) patterns))"

definition CompileIgnoreLines :: "string list \<Rightarrow> error + Gitignore" where
  "CompileIgnoreLines patterns =
     (case CompileIgnoreLines_loop [] patterns of
        Inl e \<Rightarrow> Inl e
      | Inr rules \<Rightarrow> Inr \<lparr>Rules = rules\<rparr>)"

subsection \<open>\<^verbatim>\<open>Gitignore.Match\<close> (goignore.go, lines 199 to 212)\<close>

text \<open>
  \<^verbatim>\<open>filepath.ToSlash\<close> of Go's standard library returns the path unchanged when
  the platform's \<^verbatim>\<open>Separator\<close> is the slash and replaces every separator by a slash
  otherwise. The separator is a constant of the platform (the slash on Unix, the
  backslash on Windows) and is a parameter here.
\<close>

definition ToSlash :: "char \<Rightarrow> string \<Rightarrow> string" where
  "ToSlash Separator path =
     (if Separator = CHR ''/'' then path
      else map (\<lambda>c. if c = Separator then CHR ''/'' else c) path)"

text \<open>The loop \<^verbatim>\<open>for _, rule := range g.Rules\<close> with the variable \<open>matched\<close>.\<close>

fun Gitignore_Match_loop :: "Rule list \<Rightarrow> string \<Rightarrow> bool \<Rightarrow> error + bool" where
  "Gitignore_Match_loop [] path matched = Inr matched"
| "Gitignore_Match_loop (rule # rules) path matched =
     (case Rule_Match rule path of
        Inl e \<Rightarrow> Inl e
      | Inr m \<Rightarrow>
          if m then
            (if \<not> Negate rule then Gitignore_Match_loop rules path True
             else Gitignore_Match_loop rules path False)
          else Gitignore_Match_loop rules path matched)"

definition Gitignore_Match :: "char \<Rightarrow> Gitignore \<Rightarrow> string \<Rightarrow> error + bool" where
  "Gitignore_Match Separator g path =
     Gitignore_Match_loop (Rules g) (ToSlash Separator path) False"

text \<open>
  The client's \<^verbatim>\<open>CompileIgnoreLines(patterns).Match(path)\<close>.
\<close>

definition CompileIgnoreLines_Match :: "char \<Rightarrow> string list \<Rightarrow> string \<Rightarrow> error + bool" where
  "CompileIgnoreLines_Match Separator patterns path =
     (case CompileIgnoreLines patterns of
        Inl e \<Rightarrow> Inl e
      | Inr g \<Rightarrow> Gitignore_Match Separator g path)"

subsection \<open>\<^verbatim>\<open>CompileIgnoreFile\<close> (goignore.go, lines 157 to 161)\<close>

text \<open>
  \<^verbatim>\<open>strings.Split(s, "\n")\<close> for a one-byte separator: the pieces between the
  separators, empty ones included; the empty string gives one empty piece.
\<close>

fun Split :: "string \<Rightarrow> char \<Rightarrow> string list" where
  "Split [] sep = [[]]"
| "Split (c # cs) sep =
     (if c = sep then [] # Split cs sep
      else (case Split cs sep of
              x # xs \<Rightarrow> (c # x) # xs
            | [] \<Rightarrow> [[c]]))"

text \<open>
  \<^verbatim>\<open>os.ReadFile\<close> is the file system's part and is a parameter: it gives the bytes
  read and the error, if any (\<open>None\<close> is Go's \<open>nil\<close> error). The type \<open>'e\<close> of the
  I/O error is left open. The returned pointer \<^verbatim>\<open>*Gitignore\<close> is an option, \<open>None\<close>
  for \<open>nil\<close>.
\<close>

definition CompileIgnoreFile ::
  "(string \<Rightarrow> string \<times> 'e option) \<Rightarrow> string \<Rightarrow> error + (Gitignore option \<times> 'e option)" where
  "CompileIgnoreFile ReadFile filename =
     (case ReadFile filename of
        (lines, err) \<Rightarrow>
          (case CompileIgnoreLines (Split lines (CHR 0x0A)) of
             Inl e \<Rightarrow> Inl e
           | Inr g \<Rightarrow> Inr (Some g, err)))"

section \<open>The revision of \<^verbatim>\<open>stringMatch\<close> with bracket expressions\<close>

text \<open>
  The source file \<^verbatim>\<open>src/unnamed/part_002\<close> holds two more revisions of
  \<^verbatim>\<open>goignore.go\<close>. The second one (lines 240 to 331 of that file) gives
  \<^verbatim>\<open>stringMatch\<close> a case for \<^verbatim>\<open>'['\<close> and an escape in the default case. Its
  reads of \<open>pattern\<close> past the end panic, so this revision returns \<open>error + bool\<close>.
  Bytes are compared as unsigned numbers (\<open>of_char\<close>).

  \<open>stringMatch_part002_class\<close> is the loop
  \<^verbatim>\<open>for ; j < len(pattern) && pattern[j] != ']'; j++\<close> over the contents of the
  bracket; it returns the final \<open>j\<close> and \<open>matched\<close>. Go's \<^verbatim>\<open>&&\<close> reads
  \<^verbatim>\<open>pattern[j+2]\<close> only when \<^verbatim>\<open>pattern[j+1] == '-'\<close>.
\<close>

function stringMatch_part002_class ::
  "string \<Rightarrow> string \<Rightarrow> nat \<Rightarrow> nat \<Rightarrow> bool \<Rightarrow> error + (nat \<times> bool)" where
  "stringMatch_part002_class str pattern i j matched =
     (if j < length pattern \<and> pattern ! j \<noteq> CHR '']'' then
        (if matched then stringMatch_part002_class str pattern i (j + 1) matched
         else if j + 1 \<ge> length pattern then Inl IndexOutOfRange
         else if pattern ! (j + 1) = CHR ''-'' \<and> j + 2 \<ge> length pattern then Inl IndexOutOfRange
         else stringMatch_part002_class str pattern i (j + 1)
                ((pattern ! (j + 1) = CHR ''-'' \<and> pattern ! (j + 2) \<noteq> CHR '']'' \<and>
                  (of_char (pattern ! j) :: nat) \<le> of_char (str ! i) \<and>
                  (of_char (str ! i) :: nat) \<le> of_char (pattern ! (j + 2)))
                 \<or> str ! i = pattern ! j))
      else Inr (j, matched))"
  by pat_completeness auto
termination
  by (relation "measure (\<lambda>(str, pattern, i, j, matched). length pattern - j)") auto

declare stringMatch_part002_class.simps [simp del]

text \<open>
  In the case \<^verbatim>\<open>'['\<close>, \<open>j1\<close> is \<open>j\<close> after \<^verbatim>\<open>j++\<close>; the inner
  \<^verbatim>\<open>switch pattern[j]\<close> reads \<open>pattern ! j1\<close> and sets \<open>negate\<close>, \<open>matched\<close> and
  \<open>j\<close> (\<open>j2\<close>). When the class loop ends at the end of the pattern, the state goes
  back to \<open>prevI\<close>, \<open>prevJ\<close> and the bracket is compared as a literal; the
  \<^verbatim>\<open>break\<close> leaves the \<^verbatim>\<open>switch\<close>, so the loop goes on with \<open>i + 1\<close>.
\<close>

function stringMatch_part002_loop :: "string \<Rightarrow> string \<Rightarrow> nat \<Rightarrow> nat \<Rightarrow> error + bool"
  and stringMatch_part002_star :: "string \<Rightarrow> string \<Rightarrow> nat \<Rightarrow> nat \<Rightarrow> error + bool"
where
  "stringMatch_part002_loop str pattern i j =
     (if i < length str then
        (if j \<ge> length pattern then Inr False
         else if pattern ! j = CHR ''?'' then stringMatch_part002_loop str pattern (i + 1) (j + 1)
         else if pattern ! j = CHR ''*'' then
           stringMatch_part002_star str (drop (j + 1) pattern) i (Suc (length str))
         else if pattern ! j = CHR ''['' then
           (let prevI = i; prevJ = j; j1 = j + 1 in
            if j1 \<ge> length pattern then Inl IndexOutOfRange
            else
              let negate = (pattern ! j1 = CHR ''!'');
                  matched = (pattern ! j1 = CHR '']'' \<and> str ! i = CHR '']'');
                  j2 = (if pattern ! j1 = CHR ''!'' \<or> pattern ! j1 = CHR '']'' then j1 + 1 else j1)
              in
              case stringMatch_part002_class str pattern i j2 matched of
                Inl e \<Rightarrow> Inl e
              | Inr (j3, matched') \<Rightarrow>
                  if j3 = length pattern then
                    (if str ! prevI \<noteq> pattern ! prevJ then Inr False
                     else stringMatch_part002_loop str pattern (prevI + 1) (prevJ + 1))
                  else if matched' = negate then Inr False
                  else stringMatch_part002_loop str pattern (i + 1) (j3 + 1))
         else
           (let j1 = (if pattern ! j = CHR 0x5C then j + 1 else j) in
            if j1 \<ge> length pattern then Inl IndexOutOfRange
            else if str ! i \<noteq> pattern ! j1 then Inr False
            else stringMatch_part002_loop str pattern (i + 1) (j1 + 1)))
      else if int j < int (length pattern) - 1 then Inr False
      else Inr True)"
| "stringMatch_part002_star str rest i 0 = Inr False"
| "stringMatch_part002_star str rest i (Suc k) =
     (if k \<ge> i then
        (case stringMatch_part002_loop (drop k str) rest 0 0 of
           Inl e \<Rightarrow> Inl e
         | Inr found \<Rightarrow>
             if found then Inr True
             else stringMatch_part002_star str rest i k)
      else Inr False)"
  by pat_completeness auto
termination
  by (relation "inv_image (less_than <*lex*> less_than)
        (\<lambda>x. case x of
            Inl (str, pattern, i, j) \<Rightarrow> (2 * length pattern, length str - i)
          | Inr (str, rest, i, k) \<Rightarrow> (2 * length rest + 1, k))")
     auto

declare stringMatch_part002_loop.simps [simp del]

definition stringMatch_part002 :: "string \<Rightarrow> string \<Rightarrow> error + bool" where
  "stringMatch_part002 str pattern = stringMatch_part002_loop str pattern 0 0"

section \<open>The specification's descriptions, for comparison with the code\<close>

text \<open>
  The fold of the specification's query: start with \<open>ignored = false\<close>; a rule that the
  rule matcher accepts sets \<open>ignored\<close> to \<open>NOT rule.negate\<close>; any other rule leaves it.
\<close>

definition spec_query_fold :: "(Rule \<Rightarrow> bool) \<Rightarrow> Rule list \<Rightarrow> bool" where
  "spec_query_fold ruleMatcher rules =
     foldl (\<lambda>ignored rule. if ruleMatcher rule then \<not> Negate rule else ignored) False rules"

text \<open>
  The specification's directory-only policy for a result
  \<open>(matched, consumedWholePath)\<close> of the component sequence matcher.
\<close>

definition spec_directoryOnlyPolicy :: "Rule \<Rightarrow> bool \<Rightarrow> bool \<times> bool \<Rightarrow> bool" where
  "spec_directoryOnlyPolicy rule hasTrailingSeparator result =
     (case result of
        (matched, consumedWholePath) \<Rightarrow>
          if OnlyDirectory rule
          then matched \<and> (\<not> consumedWholePath \<or> hasTrailingSeparator)
          else matched)"

text \<open>
  The specification's matching of a rule that is not anchored, over a given order of
  suffixes of the path's components: the first suffix on which the component sequence
  matcher succeeds has the policy applied and decides; without one, no match.
\<close>

definition spec_unanchored_match :: "Rule \<Rightarrow> bool \<Rightarrow> string list list \<Rightarrow> bool" where
  "spec_unanchored_match rule hasTrailingSeparator suffixes =
     (case find (\<lambda>suffix. fst (matchComponents suffix (Components rule) (OnlyDirectory rule)))
             suffixes of
        None \<Rightarrow> False
      | Some suffix \<Rightarrow>
          spec_directoryOnlyPolicy rule hasTrailingSeparator
            (matchComponents suffix (Components rule) (OnlyDirectory rule)))"

text \<open>
  The non-empty suffixes of a sequence, from the full sequence down to the single last
  element, and in the opposite order.
\<close>

definition suffixes_longest_first :: "'a list \<Rightarrow> 'a list list" where
  "suffixes_longest_first xs = map (\<lambda>j. drop j xs) [0..<length xs]"

definition suffixes_shortest_first :: "'a list \<Rightarrow> 'a list list" where
  "suffixes_shortest_first xs = map (\<lambda>j. drop j xs) (rev [0..<length xs])"

section \<open>Properties of the tokenizer\<close>

text \<open>
  \<open>mySplit\<close> returns the non-empty pieces between separators when there are at most
  1024 of them, and panics otherwise.
\<close>

lemma slice_same [simp]: "slice s l l = []"
  by (simp add: slice_def)

lemma slice_snoc: "l \<le> r \<Longrightarrow> r < length s \<Longrightarrow> slice s l (Suc r) = slice s l r @ [s ! r]"
  by (simp add: slice_def Suc_diff_le take_Suc_conv_app_nth)

lemma slice_eq_Nil: "r \<le> length s \<Longrightarrow> slice s l r = [] \<longleftrightarrow> r \<le> l"
  by (auto simp: slice_def)

lemma mySplit_loop_past: "length s < r \<Longrightarrow> mySplit_loop s sep buf idx l r = Inr (take idx buf)"
  by (simp add: mySplit_loop.simps)

lemma take_Suc_update: "idx < length buf \<Longrightarrow> take (Suc idx) (buf[idx := x]) = take idx buf @ [x]"
  by (simp add: take_Suc_conv_app_nth)

lemma mySplit_loop_pieces:
  "l \<le> r \<Longrightarrow> r \<le> length s \<Longrightarrow> idx \<le> length buf \<Longrightarrow>
   mySplit_loop s sep buf idx l r =
     (if idx + length (pieces sep (slice s l r) (drop r s)) \<le> length buf
      then Inr (take idx buf @ pieces sep (slice s l r) (drop r s))
      else Inl IndexOutOfRange)"
proof (induction s sep buf idx l r rule: mySplit_loop.induct)
  case (1 s sep buf idx l r)
  show ?case
  proof (cases "r = length s")
    case True
    then show ?thesis
      using "1.prems"
      by (subst mySplit_loop.simps)
         (auto simp: mySplit_loop_past slice_eq_Nil take_Suc_update)
  next
    case False
    then have rlt: "r < length s" using "1.prems" by simp
    then have dr: "drop r s = s ! r # drop (Suc r) s"
      by (simp add: Cons_nth_drop_Suc)
    show ?thesis
    proof (cases "s ! r = sep")
      case sep: True
      show ?thesis
      proof (cases "l < r")
        case True
        then have ne: "slice s l r \<noteq> []" using rlt by (simp add: slice_eq_Nil)
        show ?thesis
        proof (cases "idx < length buf")
          case i: True
          have "mySplit_loop s sep buf idx l r =
                mySplit_loop s sep (buf[idx := slice s l r]) (idx + 1) (r + 1) (r + 1)"
            using rlt sep True i by (subst mySplit_loop.simps) simp
          also have "\<dots> = (if idx + 1 + length (pieces sep (slice s (r + 1) (r + 1)) (drop (r + 1) s))
                              \<le> length (buf[idx := slice s l r])
                 then Inr (take (idx + 1) (buf[idx := slice s l r]) @
                           pieces sep (slice s (r + 1) (r + 1)) (drop (r + 1) s))
                 else Inl IndexOutOfRange)"
            using "1.IH"(1)[of] rlt sep True i by simp
          finally show ?thesis
            using dr sep ne i by (simp add: take_Suc_update)
        next
          case i: False
          then show ?thesis
            using rlt sep True dr ne "1.prems" by (subst mySplit_loop.simps) simp
        qed
      next
        case False
        then have e: "l = r" using "1.prems" by simp
        have "mySplit_loop s sep buf idx l r = mySplit_loop s sep buf idx (r + 1) (r + 1)"
          using rlt sep False by (subst mySplit_loop.simps) simp
        also have "\<dots> = (if idx + length (pieces sep (slice s (r + 1) (r + 1)) (drop (r + 1) s))
                              \<le> length buf
                 then Inr (take idx buf @ pieces sep (slice s (r + 1) (r + 1)) (drop (r + 1) s))
                 else Inl IndexOutOfRange)"
          using "1.IH"(2) rlt sep False "1.prems" by simp
        finally show ?thesis using dr sep e by simp
      qed
    next
      case nsep: False
      have "mySplit_loop s sep buf idx l r = mySplit_loop s sep buf idx l (r + 1)"
        using rlt nsep by (subst mySplit_loop.simps) simp
      also have "\<dots> = (if idx + length (pieces sep (slice s l (r + 1)) (drop (r + 1) s))
                              \<le> length buf
                 then Inr (take idx buf @ pieces sep (slice s l (r + 1)) (drop (r + 1) s))
                 else Inl IndexOutOfRange)"
        using "1.IH"(3) rlt nsep "1.prems" by simp
      finally show ?thesis using dr nsep "1.prems" rlt by (simp add: slice_snoc)
    qed
  qed
qed

lemma mySplit_pieces:
  "mySplit s sep =
     (if length (pieces sep [] s) \<le> 1024 then Inr (pieces sep [] s) else Inl IndexOutOfRange)"
  unfolding mySplit_def by (subst mySplit_loop_pieces) simp_all

lemma pieces_append_sep: "pieces sep acc (s @ [sep]) = pieces sep acc s"
  by (induction s arbitrary: acc) auto

lemma pieces_replicate:
  "pieces (CHR ''/'') [] (concat (replicate n ''a/'')) = replicate n ''a''"
  by (induction n) simp_all

lemma mySplit_too_long:
  "mySplit (concat (replicate 1025 ''a/'')) (CHR ''/'') = Inl IndexOutOfRange"
  by (simp add: mySplit_pieces pieces_replicate)

section \<open>Properties of the rule matcher and of the ignore set\<close>

lemma Rule_Match_Inr:
  "mySplit path (CHR ''/'') = Inr pathComponents \<Longrightarrow> \<exists>b. Rule_Match r path = Inr b"
  by (simp add: Rule_Match.simps Let_def split: prod.splits)

lemma Rule_Match_Inl:
  "mySplit path (CHR ''/'') = Inl e \<Longrightarrow> Rule_Match r path = Inl e"
  by (simp add: Rule_Match.simps)

lemma Gitignore_Match_loop_foldl:
  "mySplit path (CHR ''/'') = Inr pathComponents \<Longrightarrow>
   Gitignore_Match_loop rules path matched =
     Inr (foldl (\<lambda>ignored rule. if Rule_Match rule path = Inr True then \<not> Negate rule else ignored)
            matched rules)"
proof (induction rules arbitrary: matched)
  case Nil
  show ?case by simp
next
  case (Cons rule rules)
  from Rule_Match_Inr [OF Cons.prems] obtain b where b: "Rule_Match rule path = Inr b"
    by blast
  show ?case
    using Cons.IH [OF Cons.prems] b by (cases b) simp_all
qed

lemma Rule_Match_loop_hasSuffix:
  "\<not> OnlyDirectory r \<Longrightarrow>
   Rule_Match_loop r pathComponents h n = Rule_Match_loop r pathComponents h' n"
  by (induction n) (simp_all split: prod.splits)

lemma HasSuffix_append [simp]: "HasSuffix (p @ [c]) c"
  by (simp add: HasSuffix_def)

lemma mySplit_trailing_separator: "mySplit (p @ [sep]) sep = mySplit p sep"
  by (simp add: mySplit_pieces pieces_append_sep)

lemma Rule_Match_trailing_separator:
  assumes "\<not> OnlyDirectory r"
  shows "Rule_Match r (p @ ''/'') = Rule_Match r p"
proof (cases "mySplit p (CHR ''/'')")
  case (Inl e)
  then show ?thesis
    using mySplit_trailing_separator [of p "CHR ''/''"] by (simp add: Rule_Match_Inl)
next
  case (Inr pathComponents)
  then have "mySplit (p @ ''/'') (CHR ''/'') = Inr pathComponents"
    using mySplit_trailing_separator [of p "CHR ''/''"] by simp
  then show ?thesis
    using Inr assms
      Rule_Match_loop_hasSuffix [OF assms, where h = True and h' = "HasSuffix p (CHR ''/'')"
        and pathComponents = pathComponents and n = "length pathComponents"]
    by (simp add: Rule_Match.simps Let_def split: prod.splits)
qed

lemma Gitignore_Match_loop_trailing_separator:
  "\<forall>r \<in> set rules. \<not> OnlyDirectory r \<Longrightarrow>
   Gitignore_Match_loop rules (p @ ''/'') matched = Gitignore_Match_loop rules p matched"
  by (induction rules arbitrary: matched)
     (simp_all add: Rule_Match_trailing_separator split: sum.splits)

lemma ToSlash_append_slash: "ToSlash Separator (p @ ''/'') = ToSlash Separator p @ ''/''"
  by (simp add: ToSlash_def)

lemma rev_upt_Suc: "rev [0..<Suc n] = n # rev [0..<n]"
  by simp

lemma Rule_Match_loop_find:
  "Rule_Match_loop r pathComponents h n =
     spec_unanchored_match r h (map (\<lambda>j. drop j pathComponents) (rev [0..<n]))"
proof (induction n)
  case 0
  show ?case by (simp add: spec_unanchored_match_def)
next
  case (Suc n)
  show ?case
    using Suc.IH
    by (cases "matchComponents (drop n pathComponents) (Components r) (OnlyDirectory r)")
       (auto simp: spec_unanchored_match_def spec_directoryOnlyPolicy_def)
qed

section \<open>Properties of the segment matcher\<close>

text \<open>
  On a pattern without \<open>?\<close> and \<open>*\<close>, \<open>stringMatch\<close> accepts the text equal to the
  pattern and also the text that lacks the pattern's last character: the test after the
  loop lets one pattern character go unmatched.
\<close>

lemma length_le_one_iff: "length xs \<le> Suc 0 \<longleftrightarrow> xs = [] \<or> (\<exists>c. xs = [c])"
  by (cases xs) auto

lemma stringMatch_loop_literal:
  assumes "CHR ''?'' \<notin> set pattern" and "CHR ''*'' \<notin> set pattern"
  shows "stringMatch_loop str pattern i j \<longleftrightarrow>
           drop i str = drop j pattern \<or> (\<exists>c. drop j pattern = drop i str @ [c])"
proof (induction "length str - i" arbitrary: i j)
  case 0
  then have e: "drop i str = []" by simp
  have "stringMatch_loop str pattern i j \<longleftrightarrow> length (drop j pattern) \<le> Suc 0"
    using 0 by (subst stringMatch_loop.simps) auto
  then show ?case
    using e by (auto simp: length_le_one_iff simp del: length_drop)
next
  case (Suc n)
  then have i: "i < length str" by simp
  then have ds: "drop i str = str ! i # drop (Suc i) str"
    by (simp add: Cons_nth_drop_Suc)
  show ?case
  proof (cases "j < length pattern")
    case False
    then show ?thesis
      using i ds by (subst stringMatch_loop.simps) simp
  next
    case True
    then have dp: "drop j pattern = pattern ! j # drop (Suc j) pattern"
      by (simp add: Cons_nth_drop_Suc)
    from True assms have nw: "pattern ! j \<noteq> CHR ''?''" "pattern ! j \<noteq> CHR ''*''"
      by (metis nth_mem)+
    have IH: "stringMatch_loop str pattern (Suc i) (Suc j) \<longleftrightarrow>
           drop (Suc i) str = drop (Suc j) pattern \<or>
           (\<exists>c. drop (Suc j) pattern = drop (Suc i) str @ [c])"
      using Suc.hyps(1) [of "Suc i" "Suc j"] Suc.hyps(2) by simp
    show ?thesis
      using i True nw IH
      by (subst stringMatch_loop.simps) (simp add: ds dp)
  qed
qed

lemma stringMatch_literal:
  assumes "CHR ''?'' \<notin> set pattern" and "CHR ''*'' \<notin> set pattern"
  shows "stringMatch str pattern \<longleftrightarrow> str = pattern \<or> (\<exists>c. pattern = str @ [c])"
  using stringMatch_loop_literal [OF assms, of str 0 0] by (simp add: stringMatch_def)

lemma Gitignore_Match_loop_panics:
  "mySplit path (CHR ''/'') = Inl e \<Longrightarrow> rules \<noteq> [] \<Longrightarrow>
   Gitignore_Match_loop rules path matched = Inl e"
  by (cases rules) (simp_all add: Rule_Match_Inl)

section \<open>The claims\<close>

subsection \<open>Concrete rule sets used below\<close>

lemma compile_slash_star_not_foo:
  "CompileIgnoreLines [''/*'', ''!/foo''] =
     Inr \<lparr>Rules =
       [\<lparr>Components = [''*''], Negate = False, OnlyDirectory = False, Relative = True\<rparr>,
        \<lparr>Components = [''foo''], Negate = True, OnlyDirectory = False, Relative = True\<rparr>]\<rparr>"
  by code_simp

lemma compile_foo_dir:
  "CompileIgnoreLines [''foo/''] =
     Inr \<lparr>Rules =
       [\<lparr>Components = [''foo''], Negate = False, OnlyDirectory = True, Relative = False\<rparr>]\<rparr>"
  by code_simp

lemma compile_foo:
  "CompileIgnoreLines [''foo''] =
     Inr \<lparr>Rules =
       [\<lparr>Components = [''foo''], Negate = False, OnlyDirectory = False, Relative = False\<rparr>]\<rparr>"
  by code_simp

lemma compile_a:
  "CompileIgnoreLines [''a''] =
     Inr \<lparr>Rules =
       [\<lparr>Components = [''a''], Negate = False, OnlyDirectory = False, Relative = False\<rparr>]\<rparr>"
  by code_simp

subsection \<open>C1: the verdict is a fold over the rules, last matching rule wins\<close>

text \<open>
  Claim C1. \<open>Gitignore.Match(path)\<close> computes its verdict as a fold over the rules in
  input order, starting from \<open>ignored = false\<close>: a rule whose rule matcher accepts the
  (normalized) path sets \<open>ignored\<close> to \<open>NOT rule.negate\<close>, a rule that does not accept it
  leaves the running value unchanged whatever its negation flag, and the value after the
  last rule is the result. The loop of the source is \<open>Gitignore_Match_loop\<close>; the fold
  of the specification is \<open>spec_query_fold\<close>. The hypothesis says that the tokenizer
  returns on the path, which it does for every path of at most 1024 components.
\<close>

theorem Gitignore_Match_is_fold:
  assumes "mySplit (ToSlash Separator path) (CHR ''/'') = Inr pathComponents"
  shows "Gitignore_Match Separator g path =
           Inr (spec_query_fold (\<lambda>rule. Rule_Match rule (ToSlash Separator path) = Inr True)
                  (Rules g))"
  unfolding Gitignore_Match_def spec_query_fold_def
  by (rule Gitignore_Match_loop_foldl [OF assms])

theorem Gitignore_Match_is_fold_witness:
  "mySplit (ToSlash (CHR ''/'') ''foo/bar'') (CHR ''/'') = Inr [''foo'', ''bar''] \<and>
   Gitignore_Match (CHR ''/'')
     \<lparr>Rules =
       [\<lparr>Components = [''*''], Negate = False, OnlyDirectory = False, Relative = True\<rparr>,
        \<lparr>Components = [''foo''], Negate = True, OnlyDirectory = False, Relative = True\<rparr>,
        \<lparr>Components = [''baz''], Negate = False, OnlyDirectory = False, Relative = True\<rparr>]\<rparr>
     ''foo/bar'' = Inr False \<and>
   spec_query_fold (\<lambda>rule. Rule_Match rule (ToSlash (CHR ''/'') ''foo/bar'') = Inr True)
     [\<lparr>Components = [''*''], Negate = False, OnlyDirectory = False, Relative = True\<rparr>,
      \<lparr>Components = [''foo''], Negate = True, OnlyDirectory = False, Relative = True\<rparr>,
      \<lparr>Components = [''baz''], Negate = False, OnlyDirectory = False, Relative = True\<rparr>] = False"
proof -
  have h: "mySplit (ToSlash (CHR ''/'') ''foo/bar'') (CHR ''/'') = Inr [''foo'', ''bar'']"
    by code_simp
  have f: "spec_query_fold (\<lambda>rule. Rule_Match rule (ToSlash (CHR ''/'') ''foo/bar'') = Inr True)
     [\<lparr>Components = [''*''], Negate = False, OnlyDirectory = False, Relative = True\<rparr>,
      \<lparr>Components = [''foo''], Negate = True, OnlyDirectory = False, Relative = True\<rparr>,
      \<lparr>Components = [''baz''], Negate = False, OnlyDirectory = False, Relative = True\<rparr>] = False"
    by code_simp
  show ?thesis
    using h f
      Gitignore_Match_is_fold [OF h, of
        "\<lparr>Rules =
          [\<lparr>Components = [''*''], Negate = False, OnlyDirectory = False, Relative = True\<rparr>,
           \<lparr>Components = [''foo''], Negate = True, OnlyDirectory = False, Relative = True\<rparr>,
           \<lparr>Components = [''baz''], Negate = False, OnlyDirectory = False, Relative = True\<rparr>]\<rparr>"]
    by simp
qed

subsection \<open>C2: degenerate pattern lines and long paths panic\<close>

text \<open>
  Claim C2 says that \<open>CompileIgnoreLines\<close> and \<open>Match\<close> never raise, whatever the
  pattern lines and the path. The code does not keep it. The pattern line \<open>!\<close> passes
  the filter of \<open>CompileIgnoreLines\<close> (it is neither empty nor a comment), and
  \<open>createRule\<close> then reads \<^verbatim>\<open>pattern[0]\<close> of the empty rest: the compilation
  panics. A path of 1025 components overruns the buffer of \<open>mySplit\<close>: the query panics
  as soon as the set has a rule.
\<close>

theorem degenerate_inputs_panic:
  "CompileIgnoreLines [''!''] = Inl IndexOutOfRange \<and>
   CompileIgnoreLines [''/''] = Inl IndexOutOfRange \<and>
   CompileIgnoreLines_Match (CHR ''/'') [''a''] (concat (replicate 1025 ''a/''))
     = Inl IndexOutOfRange"
proof -
  have 1: "CompileIgnoreLines [''!''] = Inl IndexOutOfRange"
    by code_simp
  have 2: "CompileIgnoreLines [''/''] = Inl IndexOutOfRange"
    by code_simp
  have 3: "CompileIgnoreLines_Match (CHR ''/'') [''a''] (concat (replicate 1025 ''a/''))
             = Inl IndexOutOfRange"
    unfolding CompileIgnoreLines_Match_def compile_a
    by (simp add: Gitignore_Match_def ToSlash_def Rule_Match_Inl [OF mySplit_too_long])
  show ?thesis using 1 2 3 by blast
qed

subsection \<open>C3: a negated rule re-includes the descendants as well\<close>

text \<open>
  Claim C3 says that for the rules \<open>/*\<close> and \<open>!/foo\<close> the path \<open>foo\<close> is not ignored
  and the path \<open>foo/bar\<close> is ignored. The second half fails: the rule \<open>!/foo\<close> matches
  \<open>foo/bar\<close> too and, being the last matching rule, clears the verdict.
\<close>

theorem negation_descendants_counterexample:
  "\<not> (CompileIgnoreLines_Match (CHR ''/'') [''/*'', ''!/foo''] ''foo'' = Inr False \<and>
      CompileIgnoreLines_Match (CHR ''/'') [''/*'', ''!/foo''] ''foo/bar'' = Inr True)"
  by code_simp

text \<open>
  Claim C3 as amended: for the rule list \<open>/*\<close>, \<open>!/foo\<close>, \<open>Match("foo")\<close> is false and
  \<open>Match("foo/bar")\<close> is false as well. The rule \<open>/*\<close> alone ignores both paths; the
  line \<open>!/foo\<close> compiles to a negated, anchored rule with the one component \<open>foo\<close>,
  and this rule matches the path \<open>foo\<close> and also the path \<open>foo/bar\<close> below it; being
  the last matching rule it re-includes both. The verdicts are the same with either
  platform separator.
\<close>

theorem negation_reincludes_descendants:
  "CompileIgnoreLines_Match (CHR ''/'') [''/*''] ''foo'' = Inr True \<and>
   CompileIgnoreLines_Match (CHR ''/'') [''/*''] ''foo/bar'' = Inr True \<and>
   createRule ''!/foo'' =
     Inr \<lparr>Components = [''foo''], Negate = True, OnlyDirectory = False, Relative = True\<rparr> \<and>
   Rule_Match \<lparr>Components = [''foo''], Negate = True, OnlyDirectory = False, Relative = True\<rparr>
     ''foo'' = Inr True \<and>
   Rule_Match \<lparr>Components = [''foo''], Negate = True, OnlyDirectory = False, Relative = True\<rparr>
     ''foo/bar'' = Inr True \<and>
   CompileIgnoreLines_Match (CHR ''/'') [''/*'', ''!/foo''] ''foo'' = Inr False \<and>
   CompileIgnoreLines_Match (CHR ''/'') [''/*'', ''!/foo''] ''foo/bar'' = Inr False \<and>
   CompileIgnoreLines_Match (CHR 0x5C) [''/*'', ''!/foo''] ''foo'' = Inr False \<and>
   CompileIgnoreLines_Match (CHR 0x5C) [''/*'', ''!/foo''] ''foo/bar'' = Inr False"
  by code_simp

subsection \<open>C4: the order in which the suffixes of the path are tried\<close>

text \<open>
  What the loop of \<open>Rule.Match\<close> does for a rule that is not anchored: it starts at the
  last component and goes towards the front, so the suffixes are tried shortest first,
  and the first one that matches decides.
\<close>

lemma Rule_Match_unanchored_shortest_first:
  assumes "\<not> Relative r"
    and "mySplit path (CHR ''/'') = Inr pathComponents"
  shows "Rule_Match r path =
           Inr (spec_unanchored_match r (HasSuffix path (CHR ''/''))
                  (suffixes_shortest_first pathComponents))"
  using assms
  by (simp add: Rule_Match.simps Let_def Rule_Match_loop_find suffixes_shortest_first_def)

text \<open>
  For a rule that is not directory-only the order cannot be seen: the verdict is whether
  some suffix matches. On these rules the code agrees with the longest-first search of
  the specification.
\<close>

lemma spec_unanchored_match_not_directory_only:
  "\<not> OnlyDirectory r \<Longrightarrow>
   spec_unanchored_match r h suffixes =
     list_ex (\<lambda>suffix. fst (matchComponents suffix (Components r) (OnlyDirectory r))) suffixes"
  by (induction suffixes)
     (auto simp: spec_unanchored_match_def spec_directoryOnlyPolicy_def split: prod.splits)

lemma Rule_Match_unanchored_longest_first_not_directory_only:
  assumes "\<not> Relative r" and "\<not> OnlyDirectory r"
    and "mySplit path (CHR ''/'') = Inr pathComponents"
  shows "Rule_Match r path =
           Inr (spec_unanchored_match r (HasSuffix path (CHR ''/''))
                  (suffixes_longest_first pathComponents))"
  using assms
  by (simp add: Rule_Match_unanchored_shortest_first spec_unanchored_match_not_directory_only
        suffixes_shortest_first_def suffixes_longest_first_def list_ex_iff)

text \<open>
  Claim C4 says that a rule that is not anchored tries the suffixes of the path's
  component sequence from the full sequence down to the single last component, longest
  first, and that the first suffix on which the component sequence matcher succeeds
  decides, through the directory-only policy. The code tries them shortest first, and
  for a directory-only rule the verdict differs. The line \<open>foo/\<close> compiles to a rule that
  is directory-only and not anchored. On the path \<open>foo/foo\<close> the code finds the suffix
  \<open>foo\<close> first, which is consumed whole, and answers false without trying the suffix
  \<open>foo/foo\<close>. Tried longest first, as the claim says, the suffix \<open>foo/foo\<close> matches
  with a component left over and the answer is true: the file \<open>foo\<close> in the directory
  \<open>foo\<close> is ignored, as the test \<^verbatim>\<open>TestDirOnlyMatching\<close> expects of the files nested
  in \<open>foo\<close>.
\<close>

theorem Rule_Match_shortest_first_misses_directory:
  "createRule ''foo/'' =
     Inr \<lparr>Components = [''foo''], Negate = False, OnlyDirectory = True, Relative = False\<rparr> \<and>
   mySplit ''foo/foo'' (CHR ''/'') = Inr [''foo'', ''foo''] \<and>
   suffixes_longest_first [''foo'', ''foo''] = [[''foo'', ''foo''], [''foo'']] \<and>
   spec_unanchored_match
     \<lparr>Components = [''foo''], Negate = False, OnlyDirectory = True, Relative = False\<rparr>
     (HasSuffix ''foo/foo'' (CHR ''/'')) (suffixes_longest_first [''foo'', ''foo'']) = True \<and>
   Rule_Match \<lparr>Components = [''foo''], Negate = False, OnlyDirectory = True, Relative = False\<rparr>
     ''foo/foo'' = Inr False \<and>
   Rule_Match \<lparr>Components = [''foo''], Negate = False, OnlyDirectory = True, Relative = False\<rparr>
     ''foo/foo'' \<noteq>
     Inr (spec_unanchored_match
            \<lparr>Components = [''foo''], Negate = False, OnlyDirectory = True, Relative = False\<rparr>
            (HasSuffix ''foo/foo'' (CHR ''/'')) (suffixes_longest_first [''foo'', ''foo'']))"
  by code_simp

subsection \<open>C5: a pattern matches a text that lacks its last character\<close>

text \<open>
  Claim C5 says that a single-component pattern without wildcards, not anchored, matches
  the path equal to it at any depth and no other single-component path, and that a
  segment match fails when the text is exhausted while pattern characters other than a
  trailing \<open>*\<close> remain. The test after the loop of \<open>stringMatch\<close> is
  \<^verbatim>\<open>j < len(pattern)-1\<close>: with exactly one pattern character left, whatever it is, the
  match succeeds. So the pattern \<open>foo\<close> matches the text \<open>fo\<close>, and the set compiled
  from the line \<open>foo\<close> ignores the path \<open>fo\<close>.
\<close>

theorem stringMatch_accepts_missing_last_character:
  "stringMatch ''fo'' ''foo'' = True \<and>
   CompileIgnoreLines_Match (CHR ''/'') [''foo''] ''fo'' = Inr True \<and>
   CompileIgnoreLines_Match (CHR 0x5C) [''foo''] ''fo'' = Inr True \<and>
   CompileIgnoreLines_Match (CHR ''/'') [''foo''] ''foo'' = Inr True \<and>
   CompileIgnoreLines_Match (CHR ''/'') [''foo''] ''anything/foo'' = Inr True"
  by code_simp

subsection \<open>C6: a directory-only rule and the paths below the directory\<close>

text \<open>
  Claim C6 says that for the rule set \<open>foo/\<close> the path \<open>foo\<close> is not ignored, the path
  \<open>foo/\<close> is, and so is \<open>foo/s\<close> for every non-empty relative \<open>s\<close>. The three examples
  hold. The general statement fails at \<open>s = foo\<close>: the rule is not anchored, the
  suffixes of the path are tried from the last component, the single component \<open>foo\<close>
  matches and consumes the whole suffix, and without a trailing separator the
  directory-only policy answers false; the longer suffix \<open>foo/foo\<close> is never tried.
  The same happens at \<open>s = fo\<close> and at \<open>s = bar/foo\<close>.
\<close>

theorem directory_only_misses_nested_same_name:
  "CompileIgnoreLines_Match (CHR ''/'') [''foo/''] ''foo'' = Inr False \<and>
   CompileIgnoreLines_Match (CHR ''/'') [''foo/''] ''foo/'' = Inr True \<and>
   CompileIgnoreLines_Match (CHR ''/'') [''foo/''] ''foo/bar'' = Inr True \<and>
   CompileIgnoreLines_Match (CHR ''/'') [''foo/''] ''foo/foo'' = Inr False \<and>
   CompileIgnoreLines_Match (CHR 0x5C) [''foo/''] ''foo/foo'' = Inr False \<and>
   CompileIgnoreLines_Match (CHR ''/'') [''foo/''] ''foo/fo'' = Inr False \<and>
   CompileIgnoreLines_Match (CHR ''/'') [''foo/''] ''foo/bar/foo'' = Inr False"
  by code_simp

subsection \<open>C7: bracket expressions\<close>

text \<open>
  Claim C7 describes bracket expressions in the segment matcher, and an unterminated
  bracket that falls back to a literal \<open>[\<close>. In \<^verbatim>\<open>goignore.go\<close> the bracket is not
  handled: \<open>[\<close> is compared as a literal, so the pattern \<open>[a]\<close> does not match the
  text \<open>a\<close> and matches the text \<open>[a]\<close>. In the revision that has the case, the
  contents of the bracket are read at \<open>j\<close>, \<open>j+1\<close> and \<open>j+2\<close> without a test against
  the length of the pattern: the unterminated patterns \<open>[a\<close> and \<open>[\<close> panic, on
  texts equal to them, instead of matching literally.
\<close>

theorem brackets_unhandled_or_panic:
  "stringMatch ''a'' ''[a]'' = False \<and>
   stringMatch ''[a]'' ''[a]'' = True \<and>
   stringMatch_part002 ''a'' ''[a]'' = Inr True \<and>
   stringMatch_part002 ''[a'' ''[a'' = Inl IndexOutOfRange \<and>
   stringMatch_part002 ''['' ''['' = Inl IndexOutOfRange"
  by code_simp

subsection \<open>C8: a rule without components\<close>

text \<open>
  Claim C8 says that every trimmed line that is neither blank nor a comment compiles to
  a rule with at least one component. The line \<open>//\<close> is such a line: trimming leaves it
  as it is, it does not start with \<open>#\<close>, and \<open>createRule\<close> returns a rule whose
  components are empty, since \<open>mySplit\<close> drops the empty pieces of the rest \<open>/\<close>.
\<close>

theorem createRule_empty_components:
  "Trim ''//'' whitespace = ''//'' \<and>
   createRule ''//'' =
     Inr \<lparr>Components = [], Negate = False, OnlyDirectory = True, Relative = True\<rparr> \<and>
   CompileIgnoreLines [''//''] =
     Inr \<lparr>Rules =
       [\<lparr>Components = [], Negate = False, OnlyDirectory = True, Relative = True\<rparr>]\<rparr> \<and>
   CompileIgnoreLines_Match (CHR ''/'') [''//''] ''any/path'' = Inr True"
  by code_simp

subsection \<open>C9: a read error still yields an ignore set\<close>

text \<open>
  Claim C9 says that \<open>CompileIgnoreFile\<close> splits the bytes read on newline and hands
  them to the line compiler, and that a failed read gives the I/O error and no ignore
  set. In \<^verbatim>\<open>goignore.go\<close> the error of \<^verbatim>\<open>os.ReadFile\<close> is returned as it is, but
  next to it comes the set compiled from whatever bytes were returned: the empty set
  when nothing was read, the rules read so far otherwise. The pointer is never \<open>nil\<close>.
\<close>

theorem CompileIgnoreFile_returns_set_on_error:
  "CompileIgnoreFile (\<lambda>name. ([], Some e)) filename = Inr (Some \<lparr>Rules = []\<rparr>, Some e) \<and>
   CompileIgnoreFile (\<lambda>name. (''foo'' @ [CHR 0x0A] @ ''ba'', Some e)) filename =
     Inr (Some \<lparr>Rules =
       [\<lparr>Components = [''foo''], Negate = False, OnlyDirectory = False, Relative = False\<rparr>,
        \<lparr>Components = [''ba''], Negate = False, OnlyDirectory = False, Relative = False\<rparr>]\<rparr>,
          Some e)"
proof -
  have 1: "CompileIgnoreLines (Split [] (CHR 0x0A)) = Inr \<lparr>Rules = []\<rparr>"
    by code_simp
  have 2: "CompileIgnoreLines (Split (''foo'' @ [CHR 0x0A] @ ''ba'') (CHR 0x0A)) =
     Inr \<lparr>Rules =
       [\<lparr>Components = [''foo''], Negate = False, OnlyDirectory = False, Relative = False\<rparr>,
        \<lparr>Components = [''ba''], Negate = False, OnlyDirectory = False, Relative = False\<rparr>]\<rparr>"
    by code_simp
  show ?thesis
    unfolding CompileIgnoreFile_def using 1 2 by simp
qed

subsection \<open>C10: a trailing separator matters to directory-only rules alone\<close>

text \<open>
  Claim C10. For every ignore set in which no rule is directory-only and every path
  \<open>p\<close>, \<open>Match(p + "/")\<close> equals \<open>Match(p)\<close>: the trailing separator adds no component
  and is read only by the directory-only policy. The statement holds for every rule
  list, compiled or not, and for every path, whether or not it already ends with the
  separator; when the path has more than 1024 components both queries panic alike.
\<close>

theorem trailing_separator_irrelevant:
  assumes "list_all (\<lambda>r. \<not> OnlyDirectory r) (Rules g)"
  shows "Gitignore_Match Separator g (p @ ''/'') = Gitignore_Match Separator g p"
  using assms
  by (simp add: Gitignore_Match_def ToSlash_append_slash list_all_iff
        Gitignore_Match_loop_trailing_separator)

theorem trailing_separator_irrelevant_witness:
  "CompileIgnoreLines [''*.c'', ''!/lib''] =
     Inr \<lparr>Rules =
       [\<lparr>Components = [''*.c''], Negate = False, OnlyDirectory = False, Relative = False\<rparr>,
        \<lparr>Components = [''lib''], Negate = True, OnlyDirectory = False, Relative = True\<rparr>]\<rparr> \<and>
   list_all (\<lambda>r. \<not> OnlyDirectory r)
     (Rules \<lparr>Rules =
       [\<lparr>Components = [''*.c''], Negate = False, OnlyDirectory = False, Relative = False\<rparr>,
        \<lparr>Components = [''lib''], Negate = True, OnlyDirectory = False, Relative = True\<rparr>]\<rparr>) \<and>
   Gitignore_Match (CHR ''/'')
     \<lparr>Rules =
       [\<lparr>Components = [''*.c''], Negate = False, OnlyDirectory = False, Relative = False\<rparr>,
        \<lparr>Components = [''lib''], Negate = True, OnlyDirectory = False, Relative = True\<rparr>]\<rparr>
     (''src/a.c'' @ ''/'') =
   Gitignore_Match (CHR ''/'')
     \<lparr>Rules =
       [\<lparr>Components = [''*.c''], Negate = False, OnlyDirectory = False, Relative = False\<rparr>,
        \<lparr>Components = [''lib''], Negate = True, OnlyDirectory = False, Relative = True\<rparr>]\<rparr>
     ''src/a.c'' \<and>
   Gitignore_Match (CHR ''/'')
     \<lparr>Rules =
       [\<lparr>Components = [''*.c''], Negate = False, OnlyDirectory = False, Relative = False\<rparr>,
        \<lparr>Components = [''lib''], Negate = True, OnlyDirectory = False, Relative = True\<rparr>]\<rparr>
     ''src/a.c'' = Inr True"
proof -
  have c: "CompileIgnoreLines [''*.c'', ''!/lib''] =
     Inr \<lparr>Rules =
       [\<lparr>Components = [''*.c''], Negate = False, OnlyDirectory = False, Relative = False\<rparr>,
        \<lparr>Components = [''lib''], Negate = True, OnlyDirectory = False, Relative = True\<rparr>]\<rparr>"
    by code_simp
  have h: "list_all (\<lambda>r. \<not> OnlyDirectory r)
     (Rules \<lparr>Rules =
       [\<lparr>Components = [''*.c''], Negate = False, OnlyDirectory = False, Relative = False\<rparr>,
        \<lparr>Components = [''lib''], Negate = True, OnlyDirectory = False, Relative = True\<rparr>]\<rparr>)"
    by simp
  have v: "Gitignore_Match (CHR ''/'')
     \<lparr>Rules =
       [\<lparr>Components = [''*.c''], Negate = False, OnlyDirectory = False, Relative = False\<rparr>,
        \<lparr>Components = [''lib''], Negate = True, OnlyDirectory = False, Relative = True\<rparr>]\<rparr>
     ''src/a.c'' = Inr True"
    by code_simp
  show ?thesis
    using c h v trailing_separator_irrelevant [OF h, of "CHR ''/''" "''src/a.c''"]
    by simp
qed

section \<open>The repository's tests, evaluated on the model\<close>

text \<open>
  The expectations of \<^verbatim>\<open>goignore_test.go\<close> hold of the model (on Unix, where
  \<^verbatim>\<open>filepath.ToSlash\<close> is the identity; the test of Windows paths with the backslash as
  separator).
\<close>

lemma TestCompileIgnoreLines_HandleIncludePattern:
  "CompileIgnoreLines_Match (CHR ''/'') [''/*'', ''!/foo'', ''/foo/*'', ''!/foo/bar''] ''a'' = Inr True"
  "CompileIgnoreLines_Match (CHR ''/'') [''/*'', ''!/foo'', ''/foo/*'', ''!/foo/bar''] ''foo/baz'' = Inr True"
  "CompileIgnoreLines_Match (CHR ''/'') [''/*'', ''!/foo'', ''/foo/*'', ''!/foo/bar''] ''foo'' = Inr False"
  "CompileIgnoreLines_Match (CHR ''/'') [''/*'', ''!/foo'', ''/foo/*'', ''!/foo/bar''] ''/foo/bar'' = Inr False"
  by code_simp+

lemma TestCompileIgnoreLines_HandleLeadingSlash:
  "CompileIgnoreLines_Match (CHR ''/'') [''/a/b/c'', ''d/e/f'', ''/g''] ''a/b/c'' = Inr True"
  "CompileIgnoreLines_Match (CHR ''/'') [''/a/b/c'', ''d/e/f'', ''/g''] ''a/b/c/d'' = Inr True"
  "CompileIgnoreLines_Match (CHR ''/'') [''/a/b/c'', ''d/e/f'', ''/g''] ''d/e/f'' = Inr True"
  "CompileIgnoreLines_Match (CHR ''/'') [''/a/b/c'', ''d/e/f'', ''/g''] ''g'' = Inr True"
  by code_simp+

lemma TestCompileIgnoreLines_HandleLeadingSpecialChars:
  "CompileIgnoreLines_Match (CHR ''/'')
     [''# Comment'', CHR 0x5C # ''#file.txt'', CHR 0x5C # ''!file.txt'', ''file.txt'']
     ''#file.txt'' = Inr True"
  "CompileIgnoreLines_Match (CHR ''/'')
     [''# Comment'', CHR 0x5C # ''#file.txt'', CHR 0x5C # ''!file.txt'', ''file.txt'']
     ''!file.txt'' = Inr True"
  "CompileIgnoreLines_Match (CHR ''/'')
     [''# Comment'', CHR 0x5C # ''#file.txt'', CHR 0x5C # ''!file.txt'', ''file.txt'']
     ''a/!file.txt'' = Inr True"
  "CompileIgnoreLines_Match (CHR ''/'')
     [''# Comment'', CHR 0x5C # ''#file.txt'', CHR 0x5C # ''!file.txt'', ''file.txt'']
     ''file.txt'' = Inr True"
  "CompileIgnoreLines_Match (CHR ''/'')
     [''# Comment'', CHR 0x5C # ''#file.txt'', CHR 0x5C # ''!file.txt'', ''file.txt'']
     ''a/file.txt'' = Inr True"
  "CompileIgnoreLines_Match (CHR ''/'')
     [''# Comment'', CHR 0x5C # ''#file.txt'', CHR 0x5C # ''!file.txt'', ''file.txt'']
     ''file2.txt'' = Inr False"
  by code_simp+

lemma TestCompileIgnoreLines_HandleAllFilesInDir:
  "CompileIgnoreLines_Match (CHR ''/'') [''Documentation/*.html''] ''Documentation/git.html'' = Inr True"
  "CompileIgnoreLines_Match (CHR ''/'') [''Documentation/*.html''] ''Documentation/ppc/ppc.html'' = Inr False"
  "CompileIgnoreLines_Match (CHR ''/'') [''Documentation/*.html'']
     ''tools/perf/Documentation/perf.html'' = Inr False"
  by code_simp+

lemma TestCompileIgnoreLines_HandleDoubleStar:
  "CompileIgnoreLines_Match (CHR ''/'') [''**/foo'', ''bar''] ''foo'' = Inr True"
  "CompileIgnoreLines_Match (CHR ''/'') [''**/foo'', ''bar''] ''baz/foo'' = Inr True"
  "CompileIgnoreLines_Match (CHR ''/'') [''**/foo'', ''bar''] ''bar'' = Inr True"
  "CompileIgnoreLines_Match (CHR ''/'') [''**/foo'', ''bar''] ''baz/bar'' = Inr True"
  by code_simp+

lemma TestCompileIgnoreLines_HandleLeadingSlashPath:
  "CompileIgnoreLines_Match (CHR ''/'') [''/*.c''] ''hello.c'' = Inr True"
  "CompileIgnoreLines_Match (CHR ''/'') [''/*.c''] ''foo/hello.c'' = Inr False"
  by code_simp+

lemma ExampleCompileIgnoreLines:
  "CompileIgnoreLines_Match (CHR ''/'') [''node_modules'', ''*.out'', ''foo/*.c'']
     ''node_modules/test/foo.js'' = Inr True"
  "CompileIgnoreLines_Match (CHR ''/'') [''node_modules'', ''*.out'', ''foo/*.c'']
     ''node_modules2/test.out'' = Inr True"
  "CompileIgnoreLines_Match (CHR ''/'') [''node_modules'', ''*.out'', ''foo/*.c'']
     ''test/foo.js'' = Inr False"
  by code_simp+

lemma TestCompileIgnoreLines_CheckNestedDotFiles:
  "CompileIgnoreLines_Match (CHR ''/'')
     [''**/external/**/*.md'', ''**/external/**/*.json'', ''**/external/**/*.gzip'',
      ''**/external/**/.*ignore'', ''**/external/foobar/*.css'', ''**/external/barfoo/less'',
      ''**/external/barfoo/scss'']
     ''external/foobar/angular.foo.css'' = Inr True"
  "CompileIgnoreLines_Match (CHR ''/'')
     [''**/external/**/*.md'', ''**/external/**/*.json'', ''**/external/**/*.gzip'',
      ''**/external/**/.*ignore'', ''**/external/foobar/*.css'', ''**/external/barfoo/less'',
      ''**/external/barfoo/scss'']
     ''external/barfoo/.gitignore'' = Inr True"
  "CompileIgnoreLines_Match (CHR ''/'')
     [''**/external/**/*.md'', ''**/external/**/*.json'', ''**/external/**/*.gzip'',
      ''**/external/**/.*ignore'', ''**/external/foobar/*.css'', ''**/external/barfoo/less'',
      ''**/external/barfoo/scss'']
     ''external/barfoo/.bower.json'' = Inr True"
  by code_simp+

lemma TestCompileIgnoreLines_CarriageReturn:
  "CompileIgnoreLines_Match (CHR ''/'')
     [''abc/def'' @ [CHR 0x0D], ''a/b/c'' @ [CHR 0x0D], ''b'' @ [CHR 0x0D]] ''abc/def/child'' = Inr True"
  "CompileIgnoreLines_Match (CHR ''/'')
     [''abc/def'' @ [CHR 0x0D], ''a/b/c'' @ [CHR 0x0D], ''b'' @ [CHR 0x0D]] ''a/b/c/d'' = Inr True"
  "CompileIgnoreLines_Match (CHR ''/'')
     [''abc/def'' @ [CHR 0x0D], ''a/b/c'' @ [CHR 0x0D], ''b'' @ [CHR 0x0D]] ''abc'' = Inr False"
  "CompileIgnoreLines_Match (CHR ''/'')
     [''abc/def'' @ [CHR 0x0D], ''a/b/c'' @ [CHR 0x0D], ''b'' @ [CHR 0x0D]] ''def'' = Inr False"
  "CompileIgnoreLines_Match (CHR ''/'')
     [''abc/def'' @ [CHR 0x0D], ''a/b/c'' @ [CHR 0x0D], ''b'' @ [CHR 0x0D]] ''bd'' = Inr False"
  by code_simp+

lemma TestCompileIgnoreLines_WindowsPath:
  "CompileIgnoreLines_Match (CHR 0x5C) [''abc/def'', ''a/b/c'', ''b'']
     (''abc'' @ [CHR 0x5C] @ ''def'' @ [CHR 0x5C] @ ''child'') = Inr True"
  "CompileIgnoreLines_Match (CHR 0x5C) [''abc/def'', ''a/b/c'', ''b'']
     (''a'' @ [CHR 0x5C] @ ''b'' @ [CHR 0x5C] @ ''c'' @ [CHR 0x5C] @ ''d'') = Inr True"
  by code_simp+

lemma TestWildCardFiles:
  "CompileIgnoreLines_Match (CHR ''/'') [''*.swp'', ''/foo/*.wat'', ''bar/*.txt''] ''yo.swp'' = Inr True"
  "CompileIgnoreLines_Match (CHR ''/'') [''*.swp'', ''/foo/*.wat'', ''bar/*.txt'']
     ''something/else/but/it/hasyo.swp'' = Inr True"
  "CompileIgnoreLines_Match (CHR ''/'') [''*.swp'', ''/foo/*.wat'', ''bar/*.txt''] ''foo/bar.wat'' = Inr True"
  "CompileIgnoreLines_Match (CHR ''/'') [''*.swp'', ''/foo/*.wat'', ''bar/*.txt'']
     ''/foo/something.wat'' = Inr True"
  "CompileIgnoreLines_Match (CHR ''/'') [''*.swp'', ''/foo/*.wat'', ''bar/*.txt'']
     ''bar/something.txt'' = Inr True"
  "CompileIgnoreLines_Match (CHR ''/'') [''*.swp'', ''/foo/*.wat'', ''bar/*.txt'']
     ''/bar/somethingelse.txt'' = Inr True"
  "CompileIgnoreLines_Match (CHR ''/'') [''*.swp'', ''/foo/*.wat'', ''bar/*.txt'']
     ''something/not/infoo/wat.wat'' = Inr False"
  "CompileIgnoreLines_Match (CHR ''/'') [''*.swp'', ''/foo/*.wat'', ''bar/*.txt'']
     ''something/not/infoo/wat.txt'' = Inr False"
  by code_simp+

lemma TestPrecedingSlash:
  "CompileIgnoreLines_Match (CHR ''/'') [''/foo'', ''bar/''] ''foo/bar.wat'' = Inr True"
  "CompileIgnoreLines_Match (CHR ''/'') [''/foo'', ''bar/''] ''/foo/something.txt'' = Inr True"
  "CompileIgnoreLines_Match (CHR ''/'') [''/foo'', ''bar/''] ''bar/something.txt'' = Inr True"
  "CompileIgnoreLines_Match (CHR ''/'') [''/foo'', ''bar/''] ''/bar/somethingelse.go'' = Inr True"
  "CompileIgnoreLines_Match (CHR ''/'') [''/foo'', ''bar/''] ''/boo/something/bar/boo.txt'' = Inr True"
  "CompileIgnoreLines_Match (CHR ''/'') [''/foo'', ''bar/''] ''something/foo/something.txt'' = Inr False"
  by code_simp+

lemma TestDirOnlyMatching:
  "CompileIgnoreLines_Match (CHR ''/'') [''foo/'', ''bar/''] ''foo/'' = Inr True"
  "CompileIgnoreLines_Match (CHR ''/'') [''foo/'', ''bar/''] ''bar/'' = Inr True"
  "CompileIgnoreLines_Match (CHR ''/'') [''foo/'', ''bar/''] ''foo'' = Inr False"
  "CompileIgnoreLines_Match (CHR ''/'') [''foo/'', ''bar/''] ''bar'' = Inr False"
  "CompileIgnoreLines_Match (CHR ''/'') [''foo/'', ''bar/''] ''foo/bar'' = Inr True"
  "CompileIgnoreLines_Match (CHR ''/'') [''foo/'', ''bar/''] ''bar/foo'' = Inr True"
  by code_simp+

end
